theory Spec2Isabelle
  imports Main "HOL-Library.Word" "HOL-Library.Signed_Division"
begin

unbundle bit_operations_syntax

text \<open>
  A shallow embedding of the response cache (cache key, TTL policy, lookup and insertion)
  and of the DNSCrypt certificate resolver (TXT decoding, relay attempts, arbitration
  among the certificate candidates), with the properties that the specification states
  about them. Functions keep the names they have in the Go sources.
\<close>

section \<open>DNS messages\<close>

text \<open>
  The parts of the DNS library's message type that the cache plugin and the certificate
  resolver read or write. A Go \<open>string\<close> that the code only compares or hashes is a
  \<open>string\<close>; the contents of a TXT record, on which \<open>packTxtString\<close> does byte
  arithmetic, are byte lists.
\<close>

type_synonym byte = "8 word"
type_synonym uint16 = "16 word"
type_synonym uint32 = "32 word"

text \<open>\<open>time.Duration\<close> is a signed 64-bit count of nanoseconds; its arithmetic wraps.\<close>

type_synonym Duration = "64 word"

definition Second :: Duration where
  "Second = 1000000000"

definition Minute :: Duration where
  "Minute = 60 * Second"

text \<open>
  An instant (\<open>time.Time\<close>) is a number of nanoseconds on an unbounded time line.
\<close>

type_synonym Time = int

record dns_Question =
  Name :: string
  Qtype :: uint16
  Qclass :: uint16

record RR_Header =
  Rrtype :: uint16
  Ttl :: uint32

text \<open>
  A resource record is an interface value in the source. The certificate resolver
  asks whether the dynamic type is \<open>*dns.TXT\<close>; every other record type is \<open>RR_Other\<close>.
\<close>

datatype RR = TXT RR_Header "byte list list" | RR_Other RR_Header

fun Header :: "RR \<Rightarrow> RR_Header" where
  "Header (TXT h t) = h"
| "Header (RR_Other h) = h"

fun set_Ttl :: "uint32 \<Rightarrow> RR \<Rightarrow> RR" where
  "set_Ttl v (TXT h t) = TXT (h\<lparr>Ttl := v\<rparr>) t"
| "set_Ttl v (RR_Other h) = RR_Other (h\<lparr>Ttl := v\<rparr>)"

record dns_Msg =
  Id' :: uint16
  Response :: bool
  Truncated :: bool
  Compress :: bool
  Rcode :: int
  Question :: "dns_Question list"
  Answer :: "RR list"
  Ns :: "RR list"
  Extra :: "RR list"

definition RcodeSuccess :: int where "RcodeSuccess = 0"
definition RcodeServerFailure :: int where "RcodeServerFailure = 2"
definition RcodeNameError :: int where "RcodeNameError = 3"
definition RcodeRefused :: int where "RcodeRefused = 5"
definition RcodeNotAuth :: int where "RcodeNotAuth = 9"

definition TypeTXT :: uint16 where "TypeTXT = 16"
definition TypeOPT :: uint16 where "TypeOPT = 41"

section \<open>Cache key\<close>

text \<open>
  Modelled from the spec: \<open>dns.CanonicalName\<close> belongs to the DNS library and is not
  part of the sources. The spec (4.4) calls its result the case-normalized,
  fully-qualified question name: a name that lacks the trailing separator gets one, and
  the letters \<open>A\<close> to \<open>Z\<close> are mapped to lower case.
\<close>

definition isUpper :: "char \<Rightarrow> bool" where
  "isUpper c = (65 \<le> (of_char c :: nat) \<and> (of_char c :: nat) \<le> 90)"

definition toLower :: "char \<Rightarrow> char" where
  "toLower c = (if isUpper c then char_of ((of_char c :: nat) + 32) else c)"

definition IsFqdn :: "string \<Rightarrow> bool" where
  "IsFqdn s = (s \<noteq> [] \<and> last s = CHR ''.'')"

definition Fqdn :: "string \<Rightarrow> string" where
  "Fqdn s = (if IsFqdn s then s else s @ ''.'')"

definition CanonicalName :: "string \<Rightarrow> string" where
  "CanonicalName s = map toLower (Fqdn s)"

text \<open>\<open>binary.BigEndian.PutUint16\<close>: the high byte first.\<close>

definition PutUint16 :: "uint16 \<Rightarrow> byte list" where
  "PutUint16 v = [ucast (drop_bit 8 v), ucast v]"

text \<open>
  \<open>var sum [32]byte; h.Sum(sum[:0])\<close>: \<open>Sum\<close> appends the digest to the empty slice
  over the 32-byte array. A digest of at most 32 bytes lands in the array; a longer one
  would be appended to a fresh array and leave \<open>sum\<close> zero.
\<close>

definition Sum_into :: "byte list \<Rightarrow> byte list" where
  "Sum_into d = (if length d \<le> 32 then d @ replicate (32 - length d) 0 else replicate 32 0)"

text \<open>
  The hash function (\<open>sha512.New512_256\<close>, standard library) is the parameter \<open>H\<close>:
  writing two chunks and summing hashes their concatenation.
\<close>

definition computeCacheKey ::
  "(byte list \<Rightarrow> byte list) \<Rightarrow> bool \<Rightarrow> uint16 \<Rightarrow> uint16 \<Rightarrow> string \<Rightarrow> byte list" where
  "computeCacheKey H dnssec qtype qclass name =
     (let tmp = PutUint16 qtype @ PutUint16 qclass @ [if dnssec then 1 else 0];
          normalizedRawQName = map of_char (CanonicalName name)
      in Sum_into (H (tmp @ normalizedRawQName)))"

datatype panic = IndexOutOfRange | NilDereference

text \<open>\<open>msg.Question[0]\<close> panics on an empty question section.\<close>

definition ComputeCacheKey ::
  "(byte list \<Rightarrow> byte list) \<Rightarrow> bool \<Rightarrow> dns_Msg \<Rightarrow> panic + byte list" where
  "ComputeCacheKey H dnssec msg =
     (case Question msg of
        [] \<Rightarrow> Inl IndexOutOfRange
      | question # _ \<Rightarrow> Inr (computeCacheKey H dnssec (Qtype question) (Qclass question) (Name question)))"

section \<open>TTL policy\<close>

text \<open>The two record loops of \<open>getMinTTL\<close>: keep the smaller of the running value and each TTL.\<close>

definition lower_ttl :: "uint32 \<Rightarrow> RR list \<Rightarrow> uint32" where
  "lower_ttl ttl rrs = foldl (\<lambda>ttl rr. if Ttl (Header rr) < ttl then Ttl (Header rr) else ttl) ttl rrs"

definition getMinTTL :: "dns_Msg \<Rightarrow> uint32 \<Rightarrow> uint32 \<Rightarrow> uint32 \<Rightarrow> uint32 \<Rightarrow> Duration" where
  "getMinTTL msg minTTL maxTTL CacheNegMinTTL CacheNegMaxTTL =
     (if (Rcode msg \<noteq> RcodeSuccess \<and> Rcode msg \<noteq> RcodeNameError)
          \<or> (length (Answer msg) \<le> 0 \<and> length (Ns msg) \<le> 0)
      then ucast CacheNegMinTTL * Second
      else
        let ttl = (if Rcode msg = RcodeSuccess then maxTTL else CacheNegMaxTTL);
            ttl = (if length (Answer msg) > 0 then lower_ttl ttl (Answer msg)
                   else lower_ttl ttl (Ns msg));
            ttl = (if Rcode msg = RcodeSuccess
                   then (if ttl < minTTL then minTTL else ttl)
                   else (if ttl < CacheNegMinTTL then CacheNegMinTTL else ttl))
        in ucast ttl * Minute)"

text \<open>
  The TTL policy in the words of the spec (4.5): a response is negative when its status
  is neither success nor name-error or it has no answer and no authority records;
  otherwise the numeric TTL is the ceiling for the status, lowered to the least TTL of
  the answer records (of the authority records when there is no answer), raised to the
  floor for the status.
\<close>

definition spec_negative :: "dns_Msg \<Rightarrow> bool" where
  "spec_negative msg =
     ((Rcode msg \<noteq> RcodeSuccess \<and> Rcode msg \<noteq> RcodeNameError) \<or> (Answer msg = [] \<and> Ns msg = []))"

definition spec_numeric_ttl :: "dns_Msg \<Rightarrow> uint32 \<Rightarrow> uint32 \<Rightarrow> uint32 \<Rightarrow> uint32 \<Rightarrow> uint32" where
  "spec_numeric_ttl msg floor_pos ceiling_pos floor_neg ceiling_neg =
     (let success = (Rcode msg = RcodeSuccess);
          ceiling = (if success then ceiling_pos else ceiling_neg);
          records = (if Answer msg \<noteq> [] then Answer msg else Ns msg);
          lowered = Min (insert ceiling (set (map (\<lambda>rr. Ttl (Header rr)) records)));
          floor = (if success then floor_pos else floor_neg)
      in max floor lowered)"

section \<open>Response cache\<close>

text \<open>
  \<open>time.Until(expiration)\<close> is \<open>expiration.Sub(time.Now())\<close>, which saturates at the
  ends of the signed 64-bit range.
\<close>

definition Until :: "Time \<Rightarrow> Time \<Rightarrow> Duration" where
  "Until now expiration =
     (let d = expiration - now
      in if d > 2 ^ 63 - 1 then word_of_int (2 ^ 63 - 1)
         else if d < - (2 ^ 63) then word_of_int (- (2 ^ 63))
         else word_of_int d)"

text \<open>
  The value \<open>updateTTL\<close> writes: zero unless time remains, else the whole seconds that
  remain, converted to \<open>uint32\<close> (the conversion keeps the low 32 bits). \<open>until\<close> is
  positive where it is divided, so truncating signed division is the unsigned one.
\<close>

definition remaining_ttl :: "Time \<Rightarrow> Time \<Rightarrow> uint32" where
  "remaining_ttl now expiration =
     (let until = Until now expiration
      in if 0 <s until then ucast (until div Second) else 0)"

text \<open>
  \<open>updateTTL\<close> writes the TTL of every record header through the record's pointer: the
  message object is updated in place. The model returns the updated object; the caller
  stores it at the address of the old one. The records of a message are part of its
  object: no record is shared between two messages.
\<close>

definition updateTTL :: "Time \<Rightarrow> dns_Msg \<Rightarrow> Time \<Rightarrow> dns_Msg" where
  "updateTTL now msg expiration =
     (let ttl = remaining_ttl now expiration
      in msg\<lparr>Answer := map (set_Ttl ttl) (Answer msg),
              Ns := map (set_Ttl ttl) (Ns msg),
              Extra := map (\<lambda>rr. if Rrtype (Header rr) \<noteq> TypeOPT then set_Ttl ttl rr else rr)
                         (Extra msg)\<rparr>)"

text \<open>
  \<open>CachedResponse\<close> embeds a pointer \<open>*dns.Msg\<close>: the entry holds the address of the
  message object, not a copy of it.
\<close>

record CachedResponse =
  Msg :: nat
  expiration :: Time

text \<open>
  The bounded store \<open>conceptions.Cache\<close> is not part of the sources. Its two
  operations are parameters over an arbitrary store state \<open>'c\<close>: \<open>Get\<close> returns the
  entry, if any, and the store after the read; \<open>Add\<close> returns the store after the
  insertion.
\<close>

record 'c cache_ops =
  Get :: "'c \<Rightarrow> byte list \<Rightarrow> CachedResponse option \<times> 'c"
  Add :: "'c \<Rightarrow> byte list \<Rightarrow> CachedResponse \<Rightarrow> 'c"

text \<open>
  What the plugins act on: the store, and the heap of message objects that the cached
  entries, the per-query state and the callers point into.
\<close>

record 'c world =
  Cache :: 'c
  heap :: "nat \<rightharpoonup> dns_Msg"

text \<open>
  The declaration of the plugin actions is not part of the sources: \<open>PluginsStateSynth\<close>
  is the one the cache plugin assigns, and \<open>PluginsStateOther\<close> stands for every other
  value of the type.
\<close>

datatype PluginsAction = PluginsStateSynth | PluginsStateOther nat

record PluginsState =
  hash_key :: "byte list"
  dnssec :: bool
  sessionData :: "string \<rightharpoonup> nat"
  synthResponse :: "nat option"
  state :: PluginsAction
  CacheHit :: bool
  CacheMinTTL :: uint32
  CacheMaxTTL :: uint32
  CacheNegMinTTL :: uint32
  CacheNegMaxTTL :: uint32

text \<open>
  \<open>PluginCache.Eval\<close>. \<open>msg\<close> is the address of the query; \<open>now1\<close> is the clock read
  by \<open>time.Now().After\<close>, \<open>now2\<close> the one read inside \<open>updateTTL\<close>. The result is the
  returned \<open>error\<close> (always \<open>nil\<close>), the world and the per-query state; a dereference of
  an address that holds no message is the panic.
\<close>

definition PluginCache_Eval ::
  "'c cache_ops \<Rightarrow> Time \<Rightarrow> Time \<Rightarrow> 'c world \<Rightarrow> PluginsState \<Rightarrow> nat
     \<Rightarrow> panic + (string option \<times> 'c world \<times> PluginsState)" where
  "PluginCache_Eval ops now1 now2 w pluginsState msg =
     (case Get ops (Cache w) (hash_key pluginsState) of
        (None, c) \<Rightarrow> Inr (None, w\<lparr>Cache := c\<rparr>, pluginsState)
      | (Some synth, c) \<Rightarrow>
          (case heap w msg of
             None \<Rightarrow> Inl NilDereference
           | Some q \<Rightarrow>
               (case heap w (Msg synth) of
                  None \<Rightarrow> Inl NilDereference
                | Some m \<Rightarrow>
                    let m = m\<lparr>Id' := Id' q, Response := True, Compress := True\<rparr>
                    in if now1 > expiration synth
                       then Inr (None,
                                 w\<lparr>Cache := c, heap := (heap w)(Msg synth \<mapsto> m)\<rparr>,
                                 pluginsState\<lparr>sessionData :=
                                    (sessionData pluginsState)(''stale'' \<mapsto> Msg synth)\<rparr>)
                       else Inr (None,
                                 w\<lparr>Cache := c,
                                    heap := (heap w)(Msg synth \<mapsto> updateTTL now2 m (expiration synth))\<rparr>,
                                 pluginsState\<lparr>synthResponse := Some (Msg synth),
                                                state := PluginsStateSynth,
                                                CacheHit := True\<rparr>))))"

text \<open>
  \<open>PluginCacheResponse.Eval\<close>. \<open>msg\<close> is the address of the response; \<open>now1\<close> is the
  clock read for the expiration, \<open>now2\<close> the one read inside \<open>updateTTL\<close>.
\<close>

definition PluginCacheResponse_Eval ::
  "'c cache_ops \<Rightarrow> Time \<Rightarrow> Time \<Rightarrow> 'c world \<Rightarrow> PluginsState \<Rightarrow> nat
     \<Rightarrow> panic + (string option \<times> 'c world \<times> PluginsState)" where
  "PluginCacheResponse_Eval ops now1 now2 w pluginsState msg =
     (case heap w msg of
        None \<Rightarrow> Inl NilDereference
      | Some m \<Rightarrow>
          if Rcode m \<noteq> RcodeSuccess \<and> Rcode m \<noteq> RcodeNameError \<and> Rcode m \<noteq> RcodeNotAuth
          then Inr (None, w, pluginsState)
          else if Truncated m then Inr (None, w, pluginsState)
          else
            let ttl = getMinTTL m (CacheMinTTL pluginsState) (CacheMaxTTL pluginsState)
                        (CacheNegMinTTL pluginsState) (CacheNegMaxTTL pluginsState);
                cachedResponse = \<lparr>Msg = msg, expiration = now1 + sint ttl\<rparr>
            in Inr (None,
                    w\<lparr>Cache := Add ops (Cache w) (hash_key pluginsState) cachedResponse,
                       heap := (heap w)(msg \<mapsto> updateTTL now2 m (expiration cachedResponse))\<rparr>,
                    pluginsState))"

text \<open>The expiration that \<open>PluginCacheResponse.Eval\<close> gives a new entry.\<close>

definition insert_expiration :: "Time \<Rightarrow> PluginsState \<Rightarrow> dns_Msg \<Rightarrow> Time" where
  "insert_expiration now1 ps m =
     now1 + sint (getMinTTL m (CacheMinTTL ps) (CacheMaxTTL ps) (CacheNegMinTTL ps) (CacheNegMaxTTL ps))"

section \<open>Wire codec\<close>

definition isDigit :: "byte \<Rightarrow> bool" where
  "isDigit b = (b \<ge> 48 \<and> b \<le> 57)"

text \<open>The arithmetic of \<open>dddToByte\<close> is on bytes and wraps.\<close>

definition dddToByte :: "byte list \<Rightarrow> byte" where
  "dddToByte s = (s ! 0 - 48) * 100 + (s ! 1 - 48) * 10 + (s ! 2 - 48)"

text \<open>
  The loop of \<open>packTxtString\<close>, with the index \<open>i\<close> and the output \<open>msg\<close> as arguments.
  92 is the backslash; 116, 114 and 110 are \<open>t\<close>, \<open>r\<close> and \<open>n\<close>. Every read is guarded
  by the loop condition or by the test against the length, as in the source.
\<close>

function packTxt_loop :: "byte list \<Rightarrow> nat \<Rightarrow> byte list \<Rightarrow> byte list" where
  "packTxt_loop bs i msg =
     (if i < length bs then
        (if bs ! i = 92 then
           (if i + 1 = length bs then msg
            else if i + 1 + 2 < length bs \<and> isDigit (bs ! (i + 1)) \<and> isDigit (bs ! (i + 1 + 1))
                    \<and> isDigit (bs ! (i + 1 + 2))
                 then packTxt_loop bs (i + 1 + 2 + 1) (msg @ [dddToByte (drop (i + 1) bs)])
            else if bs ! (i + 1) = 116 then packTxt_loop bs (i + 1 + 1) (msg @ [9])
            else if bs ! (i + 1) = 114 then packTxt_loop bs (i + 1 + 1) (msg @ [13])
            else if bs ! (i + 1) = 110 then packTxt_loop bs (i + 1 + 1) (msg @ [10])
            else packTxt_loop bs (i + 1 + 1) (msg @ [bs ! (i + 1)]))
         else packTxt_loop bs (i + 1) (msg @ [bs ! i]))
      else msg)"
  by pat_completeness auto
termination
  by (relation "measure (\<lambda>(bs, i, msg). length bs - i)") auto

declare packTxt_loop.simps [simp del]

definition packTxtString :: "byte list \<Rightarrow> byte list" where
  "packTxtString s = packTxt_loop s 0 []"

text \<open>A slice \<open>b[lo:hi]\<close> within range, and \<open>copy(dst, src)\<close>, which writes the common prefix.\<close>

definition slice :: "'a list \<Rightarrow> nat \<Rightarrow> nat \<Rightarrow> 'a list" where
  "slice b lo hi = take (hi - lo) (drop lo b)"

definition copy :: "'a list \<Rightarrow> 'a list \<Rightarrow> 'a list" where
  "copy dst src = take (length dst) src @ drop (length src) dst"

definition Uint16 :: "byte list \<Rightarrow> uint16" where
  "Uint16 b = ucast (b ! 1) OR push_bit 8 (ucast (b ! 0))"

definition Uint32 :: "byte list \<Rightarrow> uint32" where
  "Uint32 b = ucast (b ! 3) OR push_bit 8 (ucast (b ! 2)) OR push_bit 16 (ucast (b ! 1))
                OR push_bit 24 (ucast (b ! 0))"

section \<open>Certificate resolver\<close>

text \<open>
  Modelled from the spec: the declarations of \<open>CryptoConstruction\<close> and of
  \<open>ClientMagicLen\<close> are not part of the sources. The spec (3) gives the enumeration
  Undefined, XSalsa20Poly1305, XChaCha20Poly1305 in this order, and a magic query of 8
  bytes.
\<close>

type_synonym CryptoConstruction = nat

definition UndefinedConstruction :: CryptoConstruction where "UndefinedConstruction = 0"
definition XSalsa20Poly1305 :: CryptoConstruction where "XSalsa20Poly1305 = 1"
definition XChacha20Poly1305 :: CryptoConstruction where "XChacha20Poly1305 = 2"

definition ClientMagicLen :: nat where "ClientMagicLen = 8"

definition PublicKeySize :: nat where "PublicKeySize = 32"

record CertInfo =
  ServerPk :: "byte list"
  SharedKey :: "byte list"
  MagicQuery :: "byte list"
  CryptoConstruction :: CryptoConstruction
  ForwardSecurity :: bool

text \<open>The zero value \<open>CertInfo{}\<close>.\<close>

definition CertInfo_zero :: CertInfo where
  "CertInfo_zero = \<lparr>ServerPk = replicate 32 0, SharedKey = replicate 32 0,
     MagicQuery = replicate ClientMagicLen 0, CryptoConstruction = 0, ForwardSecurity = False\<rparr>"

datatype error = InvalidPublicKeyLength | AllRelaysFailed | NoUseableCertificate
  | TransportError string

record Proxy =
  certIgnoreTimestamp :: bool
  proxySecretKey :: "byte list"

text \<open>
  What the resolver takes from outside the sources: the constant \<open>CertMagic\<close>, the
  signature check \<open>ed25519.Verify\<close> (public key, message, signature), the key derivation
  \<open>ComputeSharedKey\<close>, the clock (\<open>uint32(time.Now().Unix())\<close>), and the network.
  \<open>dnsExchange_net\<close> stands for one call of \<open>_dnsExchange\<close>, which does the network
  I/O: its outcome is a function of the number of calls made before it, of the protocol,
  the query name, the server address and the relay (\<open>None\<close> for the \<open>nil\<close> pointer),
  and is either the error or the response with its round-trip time.
\<close>

record cert_env =
  CertMagic :: "byte list"
  Verify :: "byte list \<Rightarrow> byte list \<Rightarrow> byte list \<Rightarrow> bool"
  ComputeSharedKey :: "CryptoConstruction \<Rightarrow> byte list \<Rightarrow> byte list \<Rightarrow> string \<Rightarrow> byte list"
  unix_now :: uint32
  dnsExchange_net :: "nat \<Rightarrow> string \<Rightarrow> string \<Rightarrow> string \<Rightarrow> string option
                        \<Rightarrow> error + (dns_Msg \<times> Duration)"

text \<open>
  \<open>dnsExchange\<close>: one attempt, and after a failed attempt through a relay one direct
  attempt. The result is the response, the round-trip time, the error, the flag
  \<open>relay_f\<close>, and the number of network calls made so far.
\<close>

definition dnsExchange ::
  "cert_env \<Rightarrow> string \<Rightarrow> string \<Rightarrow> string \<Rightarrow> nat \<Rightarrow> string option
     \<Rightarrow> (dns_Msg option \<times> Duration \<times> error option \<times> bool) \<times> nat" where
  "dnsExchange E proto query serverAddress n relayAddr =
     (let relay_f = (relayAddr = None)
      in case dnsExchange_net E n proto query serverAddress relayAddr of
           Inr (response, ttl) \<Rightarrow> ((Some response, ttl, None, relay_f), n + 1)
         | Inl err \<Rightarrow>
             if relayAddr \<noteq> None
             then (case dnsExchange_net E (n + 1) proto query serverAddress None of
                     Inr (response, ttl) \<Rightarrow> ((Some response, ttl, None, True), n + 2)
                   | Inl err \<Rightarrow> ((None, 0, Some err, True), n + 2))
             else ((None, 0, Some err, relay_f), n + 1))"

text \<open>
  The variables that the relay loop assigns: \<open>in\<close>, \<open>rtt\<close>, \<open>err\<close> and \<open>workingSet\<close>,
  with the count of network calls.
\<close>

record exchange_vars =
  in' :: "dns_Msg option"
  rtt :: Duration
  err :: "error option"
  workingSet :: "string option list"
  calls :: nat

definition exchange_vars_init :: exchange_vars where
  "exchange_vars_init = \<lparr>in' = None, rtt = 0, err = None, workingSet = [], calls = 0\<rparr>"

fun relay_loop ::
  "cert_env \<Rightarrow> string \<Rightarrow> string \<Rightarrow> string \<Rightarrow> string option list \<Rightarrow> exchange_vars
     \<Rightarrow> exchange_vars" where
  "relay_loop E proto query serverAddress [] v = v"
| "relay_loop E proto query serverAddress (relayAddr # relays) v =
     (case dnsExchange E proto query serverAddress (calls v) relayAddr of
        ((response, ttl, e, relay_f), n) \<Rightarrow>
          let v = v\<lparr>in' := response, rtt := ttl, err := e, calls := n\<rparr>
          in if e \<noteq> None then relay_loop E proto query serverAddress relays v
             else if \<not> relay_f
             then relay_loop E proto query serverAddress relays
                    (v\<lparr>workingSet := workingSet v @ [relayAddr]\<rparr>)
             else relay_loop E proto query serverAddress relays v)"

text \<open>
  The body of the loop over \<open>in.Answer\<close>: the state is \<open>certInfo\<close> and \<open>highestSerial\<close>;
  every \<open>continue\<close> returns the state as it is at that point. Logging is left out, and
  with it \<open>daysLeft\<close> and \<open>certCountStr\<close>. \<open>CertMagic\<close> is an array of at least four
  bytes, and the public key has passed the length check, so that \<open>ed25519.Verify\<close> does
  not panic.
\<close>

definition cert_candidate ::
  "cert_env \<Rightarrow> Proxy \<Rightarrow> byte list \<Rightarrow> string \<Rightarrow> CertInfo \<times> uint32 \<Rightarrow> RR \<Rightarrow> CertInfo \<times> uint32" where
  "cert_candidate E proxy pk providerName st answerRr =
     (case st of (certInfo, highestSerial) \<Rightarrow>
      (case answerRr of
         RR_Other h \<Rightarrow> st
       | TXT h t \<Rightarrow>
           let binCert = packTxtString (concat t)
           in if length binCert < 124 then st
              else if take 4 binCert \<noteq> take 4 (CertMagic E) then st
              else
                let esVersion = Uint16 (slice binCert 4 6)
                in if esVersion \<noteq> 1 \<and> esVersion \<noteq> 2 then st
                   else
                     let cryptoConstruction =
                           (if esVersion = 1 then XSalsa20Poly1305 else XChacha20Poly1305);
                         signature = slice binCert 8 72;
                         signed = drop 72 binCert
                     in if \<not> Verify E pk signed signature then st
                        else
                          let serial = Uint32 (slice binCert 112 116);
                              tsBegin = Uint32 (slice binCert 116 120);
                              tsEnd = Uint32 (slice binCert 120 124)
                          in if tsBegin \<ge> tsEnd then st
                             else
                               let ttl = tsEnd - tsBegin;
                                   certInfo = certInfo\<lparr>ForwardSecurity :=
                                                (if ttl > 86400 * 7 then False else True)\<rparr>
                               in if \<not> certIgnoreTimestamp proxy
                                     \<and> (unix_now E > tsEnd \<or> unix_now E < tsBegin)
                                  then (certInfo, highestSerial)
                                  else if serial < highestSerial then (certInfo, highestSerial)
                                  else if serial = highestSerial
                                          \<and> cryptoConstruction < CryptoConstruction certInfo
                                  then (certInfo, highestSerial)
                                  else if cryptoConstruction \<noteq> XChacha20Poly1305
                                          \<and> cryptoConstruction \<noteq> XSalsa20Poly1305
                                  then (certInfo, highestSerial)
                                  else
                                    let serverPk = copy (replicate 32 0) (slice binCert 72 104);
                                        sharedKey = ComputeSharedKey E cryptoConstruction
                                                      (proxySecretKey proxy) serverPk providerName
                                    in (certInfo\<lparr>SharedKey := sharedKey,
                                          CryptoConstruction := cryptoConstruction,
                                          ServerPk := copy (ServerPk certInfo) serverPk,
                                          MagicQuery := copy (MagicQuery certInfo)
                                                          (slice binCert 104 112)\<rparr>,
                                        serial)))"

definition HasSuffix :: "string \<Rightarrow> string \<Rightarrow> bool" where
  "HasSuffix s suffix = (length s \<ge> length suffix \<and> drop (length s - length suffix) s = suffix)"

text \<open>
  The second half of \<open>FetchCurrentDNSCryptCert\<close>, from \<open>now := ...\<close> on: the loop over
  the answer section and the two returns after it. The returned round-trip time is in
  milliseconds, by truncating division.
\<close>

definition select_certificate ::
  "cert_env \<Rightarrow> Proxy \<Rightarrow> byte list \<Rightarrow> string \<Rightarrow> string option list \<Rightarrow> Duration \<Rightarrow> dns_Msg
     \<Rightarrow> string option list \<times> CertInfo \<times> int \<times> error option" where
  "select_certificate E proxy pk providerName workingSet' rtt' response =
     (case foldl (cert_candidate E proxy pk providerName)
             (CertInfo_zero\<lparr>CryptoConstruction := UndefinedConstruction\<rparr>, 0)
             (Answer response) of
        (certInfo, highestSerial) \<Rightarrow>
          if CryptoConstruction certInfo = UndefinedConstruction
          then ([], certInfo, 0, Some NoUseableCertificate)
          else (workingSet', certInfo, sint rtt' sdiv 1000000, None))"

text \<open>
  \<open>FetchCurrentDNSCryptCert\<close>. The result is the four returned values; \<open>None\<close> is the
  panic of reading \<open>in.Answer\<close> through a \<open>nil\<close> pointer. The server name and \<open>isNew\<close>
  only reach the log and are left out; a \<open>nil\<close> slice is the empty list.
\<close>

definition FetchCurrentDNSCryptCert ::
  "cert_env \<Rightarrow> Proxy \<Rightarrow> string \<Rightarrow> byte list \<Rightarrow> string \<Rightarrow> string \<Rightarrow> string option list
     \<Rightarrow> (string option list \<times> CertInfo \<times> int \<times> error option) option" where
  "FetchCurrentDNSCryptCert E proxy proto pk serverAddress providerName relays =
     (if length pk \<noteq> PublicKeySize then Some ([], CertInfo_zero, 0, Some InvalidPublicKeyLength)
      else
        let providerName = (if \<not> HasSuffix providerName ''.'' then providerName @ ''.''
                            else providerName);
            v = (if length relays > 0
                 then relay_loop E proto providerName serverAddress relays exchange_vars_init
                 else (case dnsExchange E proto providerName serverAddress 0 None of
                         ((response, ttl, e, relay_f), n) \<Rightarrow>
                           exchange_vars_init\<lparr>in' := response, rtt := ttl, err := e, calls := n\<rparr>))
        in if length relays > 0 \<and> length (workingSet v) < 1
           then Some ([], CertInfo_zero, 0, Some AllRelaysFailed)
           else
             (case err v of
                Some e \<Rightarrow> Some ([], CertInfo_zero, 0, Some e)
              | None \<Rightarrow>
                  (case in' v of
                     None \<Rightarrow> None
                   | Some response \<Rightarrow>
                       Some (select_certificate E proxy pk providerName (workingSet v) (rtt v)
                               response))))"

section \<open>Properties named by the specification\<close>

text \<open>Two characters that differ at most in letter case, and names that do so throughout.\<close>

definition case_variant :: "char \<Rightarrow> char \<Rightarrow> bool" where
  "case_variant a b =
     (a = b \<or> (isUpper a \<and> (of_char b :: nat) = of_char a + 32)
            \<or> (isUpper b \<and> (of_char a :: nat) = of_char b + 32))"

definition differ_only_in_case :: "string \<Rightarrow> string \<Rightarrow> bool" where
  "differ_only_in_case n1 n2 = list_all2 case_variant n1 n2"

text \<open>Two messages that agree in everything but the TTLs of their records.\<close>

definition same_records_but_ttl :: "RR list \<Rightarrow> RR list \<Rightarrow> bool" where
  "same_records_but_ttl rs rs' = (map (set_Ttl 0) rs = map (set_Ttl 0) rs')"

text \<open>
  The fields of a certificate, by the offsets at which \<open>FetchCurrentDNSCryptCert\<close> reads
  them, and a candidate that passes every check before the comparison of serials.
\<close>

definition cert_construction :: "byte list \<Rightarrow> CryptoConstruction" where
  "cert_construction binCert =
     (if Uint16 (slice binCert 4 6) = 1 then XSalsa20Poly1305 else XChacha20Poly1305)"

definition cert_serial :: "byte list \<Rightarrow> uint32" where
  "cert_serial binCert = Uint32 (slice binCert 112 116)"

definition cert_tsBegin :: "byte list \<Rightarrow> uint32" where
  "cert_tsBegin binCert = Uint32 (slice binCert 116 120)"

definition cert_tsEnd :: "byte list \<Rightarrow> uint32" where
  "cert_tsEnd binCert = Uint32 (slice binCert 120 124)"

definition otherwise_valid :: "cert_env \<Rightarrow> Proxy \<Rightarrow> byte list \<Rightarrow> byte list \<Rightarrow> bool" where
  "otherwise_valid E proxy pk binCert =
     (length binCert \<ge> 124 \<and> take 4 binCert = take 4 (CertMagic E)
      \<and> (Uint16 (slice binCert 4 6) = 1 \<or> Uint16 (slice binCert 4 6) = 2)
      \<and> Verify E pk (drop 72 binCert) (slice binCert 8 72)
      \<and> cert_tsBegin binCert < cert_tsEnd binCert
      \<and> (certIgnoreTimestamp proxy
           \<or> (unix_now E \<le> cert_tsEnd binCert \<and> cert_tsBegin binCert \<le> unix_now E)))"

text \<open>
  What arbitration decides: the server key, the shared key, the magic query and the
  construction of the best certificate so far, with the highest serial.
\<close>

definition arbitration_fields ::
  "CertInfo \<times> uint32 \<Rightarrow> byte list \<times> byte list \<times> byte list \<times> CryptoConstruction \<times> uint32" where
  "arbitration_fields st =
     (ServerPk (fst st), SharedKey (fst st), MagicQuery (fst st), CryptoConstruction (fst st),
      snd st)"

text \<open>The array types of \<open>CertInfo\<close>: 32, 32 and \<open>ClientMagicLen\<close> bytes.\<close>

definition CertInfo_sized :: "CertInfo \<Rightarrow> bool" where
  "CertInfo_sized c =
     (length (ServerPk c) = 32 \<and> length (SharedKey c) = 32 \<and> length (MagicQuery c) = ClientMagicLen)"

text \<open>
  Whether the validity window of a certificate is at most 7 days, and a candidate that
  is too short, has the wrong magic, or whose signature does not verify.
\<close>

definition cert_forward_secure :: "byte list \<Rightarrow> bool" where
  "cert_forward_secure binCert = (\<not> cert_tsEnd binCert - cert_tsBegin binCert > 86400 * 7)"

definition malformed_or_unsigned :: "cert_env \<Rightarrow> byte list \<Rightarrow> byte list \<Rightarrow> bool" where
  "malformed_or_unsigned E pk binCert =
     (length binCert < 124 \<or> take 4 binCert \<noteq> take 4 (CertMagic E)
      \<or> \<not> Verify E pk (drop 72 binCert) (slice binCert 8 72))"

section \<open>Concrete inputs\<close>

text \<open>A store without eviction, for the concrete runs of the cache plugins.\<close>

definition map_cache_ops :: "(byte list \<rightharpoonup> CachedResponse) cache_ops" where
  "map_cache_ops = \<lparr>Get = (\<lambda>c k. (c k, c)), Add = (\<lambda>c k v. c(k \<mapsto> v))\<rparr>"

definition ex_rr :: "uint32 \<Rightarrow> RR" where
  "ex_rr t = RR_Other \<lparr>Rrtype = 1, Ttl = t\<rparr>"

definition ex_msg :: "uint16 \<Rightarrow> int \<Rightarrow> bool \<Rightarrow> RR list \<Rightarrow> dns_Msg" where
  "ex_msg i rc tc answers = \<lparr>Id' = i, Response = False, Truncated = tc, Compress = False,
     Rcode = rc, Question = [\<lparr>Name = ''example.com.'', Qtype = 1, Qclass = 1\<rparr>],
     Answer = answers, Ns = [], Extra = []\<rparr>"

definition ex_pluginsState :: PluginsState where
  "ex_pluginsState = \<lparr>hash_key = replicate 32 7, dnssec = False, sessionData = Map.empty,
     synthResponse = None, state = PluginsStateOther 0, CacheHit = False,
     CacheMinTTL = 0, CacheMaxTTL = 86400, CacheNegMinTTL = 60, CacheNegMaxTTL = 600\<rparr>"

text \<open>
  A world with the query at address 0 (id 7) and a cached response at address 1 (id 1),
  stored under the key of \<open>ex_pluginsState\<close> with expiration 100.
\<close>

definition ex_world :: "(byte list \<rightharpoonup> CachedResponse) world" where
  "ex_world = \<lparr>Cache = [replicate 32 7 \<mapsto> \<lparr>Msg = 1, expiration = 100\<rparr>],
     heap = [0 \<mapsto> ex_msg 7 0 False [], 1 \<mapsto> ex_msg 1 0 False [ex_rr 300]]\<rparr>"

text \<open>
  A certificate with the given version, server key byte, serial and validity window; the
  signature and the magic query are zero bytes. The environment accepts the signature
  of zero bytes and no other, returns the server key as the shared key, and answers the
  \<open>n\<close>-th network call with \<open>net n\<close>.
\<close>

definition PutUint32 :: "uint32 \<Rightarrow> byte list" where
  "PutUint32 v = [ucast (drop_bit 24 v), ucast (drop_bit 16 v), ucast (drop_bit 8 v), ucast v]"

definition ex_cert :: "uint16 \<Rightarrow> byte \<Rightarrow> uint32 \<Rightarrow> uint32 \<Rightarrow> uint32 \<Rightarrow> byte list" where
  "ex_cert version k serial tsBegin tsEnd =
     [68, 78, 83, 67] @ PutUint16 version @ [0, 0] @ replicate 64 0 @ replicate 32 k
       @ replicate 8 0 @ PutUint32 serial @ PutUint32 tsBegin @ PutUint32 tsEnd"

text \<open>
  Three certificates of version 1, valid at the time 1000 of the environment: serial 5
  with a window of one day and key byte 1; the same with key byte 2; serial 3 with a
  window of thirty days and key byte 2.
\<close>

definition ex_cert_first :: "byte list" where
  "ex_cert_first = ex_cert 1 1 5 900 87300"

definition ex_cert_rival :: "byte list" where
  "ex_cert_rival = ex_cert 1 2 5 900 87300"

definition ex_cert_old :: "byte list" where
  "ex_cert_old = ex_cert 1 2 3 900 2592900"

definition ex_txt :: "byte list \<Rightarrow> RR" where
  "ex_txt c = TXT \<lparr>Rrtype = TypeTXT, Ttl = 0\<rparr> [c]"

definition ex_env :: "(nat \<Rightarrow> error + (dns_Msg \<times> Duration)) \<Rightarrow> cert_env" where
  "ex_env net = \<lparr>CertMagic = [68, 78, 83, 67],
     Verify = (\<lambda>pk signed signature. signature = replicate 64 0),
     ComputeSharedKey = (\<lambda>c sk pk name. pk), unix_now = 1000,
     dnsExchange_net = (\<lambda>n proto query serverAddress relayAddr. net n)\<rparr>"

definition ex_response :: "byte list list \<Rightarrow> dns_Msg" where
  "ex_response certs = \<lparr>Id' = 0, Response = True, Truncated = False, Compress = False,
     Rcode = 0, Question = [], Answer = map ex_txt certs, Ns = [], Extra = []\<rparr>"

definition ex_best :: CertInfo where
  "ex_best = \<lparr>ServerPk = replicate 32 1, SharedKey = replicate 32 1,
     MagicQuery = replicate 8 0, CryptoConstruction = XSalsa20Poly1305, ForwardSecurity = True\<rparr>"

definition ex_net_down :: "nat \<Rightarrow> error + (dns_Msg \<times> Duration)" where
  "ex_net_down n = Inl (TransportError ''timeout'')"


definition ex_net_up :: "byte list list \<Rightarrow> nat \<Rightarrow> error + (dns_Msg \<times> Duration)" where
  "ex_net_up certs n = Inr (ex_response certs, 5000000)"

definition ex_proxy :: Proxy where
  "ex_proxy = \<lparr>certIgnoreTimestamp = False, proxySecretKey = replicate 32 9\<rparr>"

section \<open>The TTL policy refines its specification\<close>

lemma lower_ttl_Cons:
  "lower_ttl t (r # rrs) = lower_ttl (min (Ttl (Header r)) t) rrs"
proof (cases "Ttl (Header r) < t")
  case True
  then have "min (Ttl (Header r)) t = Ttl (Header r)" by simp
  with True show ?thesis by (simp add: lower_ttl_def)
next
  case False
  then have "min (Ttl (Header r)) t = t" by simp
  with False show ?thesis by (simp add: lower_ttl_def)
qed

lemma lower_ttl_Min:
  "lower_ttl t rrs = Min (insert t (set (map (\<lambda>rr. Ttl (Header rr)) rrs)))"
proof (induction rrs arbitrary: t)
  case Nil
  then show ?case by (simp add: lower_ttl_def)
next
  case (Cons r rrs)
  let ?S = "set (map (\<lambda>rr. Ttl (Header rr)) rrs)"
  have fin: "finite ?S" by simp
  have "lower_ttl t (r # rrs) = Min (insert (min (Ttl (Header r)) t) ?S)"
    by (simp only: lower_ttl_Cons Cons.IH)
  also have "\<dots> = Min (insert t (insert (Ttl (Header r)) ?S))"
  proof (cases "?S = {}")
    case True
    then show ?thesis by (simp add: min.commute)
  next
    case False
    with fin show ?thesis
      by (simp add: min.assoc min.commute)
  qed
  finally show ?case by simp
qed

lemma getMinTTL_negative:
  "spec_negative msg \<Longrightarrow> getMinTTL msg a b c d = ucast c * Second"
  by (simp add: getMinTTL_def spec_negative_def)

lemma getMinTTL_positive:
  assumes "\<not> spec_negative msg"
  shows "getMinTTL msg a b c d = ucast (spec_numeric_ttl msg a b c d) * Minute"
proof -
  from assms have cond: "\<not> ((Rcode msg \<noteq> RcodeSuccess \<and> Rcode msg \<noteq> RcodeNameError)
          \<or> (length (Answer msg) \<le> 0 \<and> length (Ns msg) \<le> 0))"
    by (simp add: spec_negative_def)
  have m: "\<And>(x::uint32) y. (if x < y then y else x) = max y x"
    by (auto simp: max_def)
  show ?thesis
    unfolding getMinTTL_def spec_numeric_ttl_def Let_def if_not_P [OF cond] lower_ttl_Min m
    by (cases "Answer msg = []") simp_all
qed

text \<open>
  C6. \<open>getMinTTL\<close> computes the TTL policy of the spec. For a negative response the
  result is the negative floor, taken as seconds, with no ceiling applied. For every
  other response the numeric TTL is the ceiling for the status, lowered to the least
  TTL of the answer records (of the authority records when there are no answers) and
  raised to the floor for the status; the returned duration is that number of minutes.
  A success response with answer TTLs 50, 10 and 300, floor 0 and ceiling 86400 has the
  numeric TTL 10.
\<close>

theorem getMinTTL_refines_spec:
  "getMinTTL msg minTTL maxTTL negMin negMax =
     (if spec_negative msg then ucast negMin * Second
      else ucast (spec_numeric_ttl msg minTTL maxTTL negMin negMax) * Minute)
   \<and> spec_numeric_ttl (ex_msg 0 RcodeSuccess False [ex_rr 50, ex_rr 10, ex_rr 300])
         0 86400 60 600 = 10
   \<and> getMinTTL (ex_msg 0 RcodeSuccess False [ex_rr 50, ex_rr 10, ex_rr 300])
         0 86400 60 600 = 10 * Minute"
proof -
  have a: "getMinTTL msg minTTL maxTTL negMin negMax =
     (if spec_negative msg then ucast negMin * Second
      else ucast (spec_numeric_ttl msg minTTL maxTTL negMin negMax) * Minute)"
    by (simp add: getMinTTL_negative getMinTTL_positive)
  have b: "spec_numeric_ttl (ex_msg 0 RcodeSuccess False [ex_rr 50, ex_rr 10, ex_rr 300])
         0 86400 60 600 = 10"
    by (simp add: spec_numeric_ttl_def ex_msg_def ex_rr_def RcodeSuccess_def)
  have c: "getMinTTL (ex_msg 0 RcodeSuccess False [ex_rr 50, ex_rr 10, ex_rr 300])
         0 86400 60 600 = 10 * Minute"
    by (simp add: getMinTTL_def ex_msg_def ex_rr_def lower_ttl_def RcodeSuccess_def)
  from a b c show ?thesis by simp
qed

theorem getMinTTL_refines_spec_witness:
  "spec_negative (ex_msg 0 RcodeServerFailure False [])
   \<and> getMinTTL (ex_msg 0 RcodeServerFailure False []) 0 86400 60 600 = 60 * Second
   \<and> \<not> spec_negative (ex_msg 0 RcodeNameError False [ex_rr 5, ex_rr 900])
   \<and> getMinTTL (ex_msg 0 RcodeNameError False [ex_rr 5, ex_rr 900]) 0 86400 60 600 = 60 * Minute"
proof -
  have n: "spec_negative (ex_msg 0 RcodeServerFailure False [])"
    by (simp add: spec_negative_def ex_msg_def RcodeServerFailure_def RcodeSuccess_def
        RcodeNameError_def)
  have p: "\<not> spec_negative (ex_msg 0 RcodeNameError False [ex_rr 5, ex_rr 900])"
    by (simp add: spec_negative_def ex_msg_def RcodeNameError_def)
  have v: "spec_numeric_ttl (ex_msg 0 RcodeNameError False [ex_rr 5, ex_rr 900]) 0 86400 60 600 = 60"
    by (simp add: spec_numeric_ttl_def ex_msg_def ex_rr_def RcodeSuccess_def RcodeNameError_def)
  from n p v
    getMinTTL_refines_spec [of "ex_msg 0 RcodeServerFailure False []" 0 86400 60 600]
    getMinTTL_refines_spec [of "ex_msg 0 RcodeNameError False [ex_rr 5, ex_rr 900]" 0 86400 60 600]
  show ?thesis by simp
qed

section \<open>The cache key\<close>

text \<open>
  C10. \<open>ComputeCacheKey\<close> reads the first question of the message whatever the message
  is: with a non-empty question section it returns the key of that question, and with
  an empty one the read is out of range.
\<close>

theorem ComputeCacheKey_needs_question:
  "(Question msg \<noteq> [] \<longrightarrow>
      ComputeCacheKey H d msg =
        Inr (computeCacheKey H d (Qtype (hd (Question msg))) (Qclass (hd (Question msg)))
               (Name (hd (Question msg)))))
   \<and> (Question msg = [] \<longrightarrow> ComputeCacheKey H d msg = Inl IndexOutOfRange)"
  by (cases "Question msg") (simp_all add: ComputeCacheKey_def)

theorem ComputeCacheKey_needs_question_witness:
  "Question (ex_msg 7 0 False []) \<noteq> []
   \<and> ComputeCacheKey (\<lambda>bs. take 32 bs) False (ex_msg 7 0 False [])
       = Inr (computeCacheKey (\<lambda>bs. take 32 bs) False 1 1 ''example.com.'')
   \<and> Question ((ex_msg 7 0 False [])\<lparr>Question := []\<rparr>) = []
   \<and> ComputeCacheKey (\<lambda>bs. take 32 bs) False ((ex_msg 7 0 False [])\<lparr>Question := []\<rparr>)
       = Inl IndexOutOfRange"
  using ComputeCacheKey_needs_question [of "ex_msg 7 0 False []" "\<lambda>bs. take 32 bs" False]
    ComputeCacheKey_needs_question [of "(ex_msg 7 0 False [])\<lparr>Question := []\<rparr>" "\<lambda>bs. take 32 bs" False]
  by (simp add: ex_msg_def)

lemma toLower_case_variant:
  assumes "case_variant a b"
  shows "toLower a = toLower b"
proof -
  have up: "toLower b = toLower a"
    if u: "isUpper a" and e: "(of_char b :: nat) = of_char a + 32" for a b
  proof -
    from u e have nb: "\<not> isUpper b" by (simp add: isUpper_def)
    have "b = char_of (of_char b :: nat)" by simp
    with e have "b = char_of ((of_char a :: nat) + 32)" by simp
    with u nb show ?thesis by (simp add: toLower_def)
  qed
  from assms consider "a = b" | "isUpper a \<and> (of_char b :: nat) = of_char a + 32"
    | "isUpper b \<and> (of_char a :: nat) = of_char b + 32"
    by (auto simp: case_variant_def)
  then show ?thesis
  proof cases
    case 1 then show ?thesis by simp
  next
    case 2 then show ?thesis using up [of a b] by simp
  next
    case 3 then show ?thesis using up [of b a] by simp
  qed
qed

lemma dot_case_variant:
  assumes "case_variant a b"
  shows "(a = CHR ''.'') = (b = CHR ''.'')"
  using assms by (auto simp: case_variant_def isUpper_def)

lemma IsFqdn_case:
  assumes "differ_only_in_case n1 n2"
  shows "IsFqdn n1 = IsFqdn n2"
proof -
  from assms have l: "list_all2 case_variant n1 n2" by (simp add: differ_only_in_case_def)
  then have len: "length n1 = length n2" by (rule list_all2_lengthD)
  show ?thesis
  proof (cases "n1 = []")
    case True
    with len show ?thesis by (simp add: IsFqdn_def)
  next
    case False
    with len have ne2: "n2 \<noteq> []" by auto
    from False have i: "length n1 - 1 < length n1" by (cases n1) simp_all
    from l i have "case_variant (n1 ! (length n1 - 1)) (n2 ! (length n1 - 1))"
      by (rule list_all2_nthD)
    with False ne2 len have "case_variant (last n1) (last n2)"
      by (simp add: last_conv_nth)
    then have "(last n1 = CHR ''.'') = (last n2 = CHR ''.'')" by (rule dot_case_variant)
    with False ne2 show ?thesis by (simp add: IsFqdn_def)
  qed
qed

lemma map_toLower_case:
  assumes "differ_only_in_case n1 n2"
  shows "map toLower n1 = map toLower n2"
proof -
  from assms have "list_all2 case_variant n1 n2" by (simp add: differ_only_in_case_def)
  then show ?thesis
    by (induction rule: list_all2_induct) (simp_all add: toLower_case_variant)
qed

lemma CanonicalName_case:
  assumes "differ_only_in_case n1 n2"
  shows "CanonicalName n1 = CanonicalName n2"
  using IsFqdn_case [OF assms] map_toLower_case [OF assms]
  by (simp add: CanonicalName_def Fqdn_def)

lemma CanonicalName_dot:
  assumes "\<not> IsFqdn n"
  shows "CanonicalName (n @ ''.'') = CanonicalName n"
proof -
  have "IsFqdn (n @ ''.'')" by (simp add: IsFqdn_def)
  with assms show ?thesis by (simp add: CanonicalName_def Fqdn_def)
qed

lemma length_Sum_into: "length (Sum_into d) = 32"
  by (simp add: Sum_into_def)

text \<open>
  C7. The cache key is a function of its four inputs and always has 32 bytes. Two names
  that differ only in letter case give the same key; a name without the trailing dot
  and the same name with it give the same key; and so do two names that differ in both
  ways. This rests on the canonical name as the spec describes it.
\<close>

theorem cache_key_normalized:
  "length (computeCacheKey H d qt qc name) = 32
   \<and> (d = d' \<and> qt = qt' \<and> qc = qc' \<and> n1 = n2 \<longrightarrow>
        computeCacheKey H d qt qc n1 = computeCacheKey H d' qt' qc' n2)
   \<and> (differ_only_in_case n1 n2 \<longrightarrow>
        computeCacheKey H d qt qc n1 = computeCacheKey H d qt qc n2)
   \<and> (\<not> IsFqdn n1 \<longrightarrow>
        computeCacheKey H d qt qc (n1 @ ''.'') = computeCacheKey H d qt qc n1)
   \<and> (\<not> IsFqdn n1 \<and> differ_only_in_case n1 n2 \<longrightarrow>
        computeCacheKey H d qt qc (n1 @ ''.'') = computeCacheKey H d qt qc n2)"
proof -
  have a: "length (computeCacheKey H d qt qc name) = 32"
    by (simp add: computeCacheKey_def Let_def length_Sum_into)
  have b: "computeCacheKey H d qt qc n1 = computeCacheKey H d qt qc n2"
    if "differ_only_in_case n1 n2"
    using CanonicalName_case [OF that] by (simp add: computeCacheKey_def)
  have c: "computeCacheKey H d qt qc (n1 @ ''.'') = computeCacheKey H d qt qc n1"
    if "\<not> IsFqdn n1"
    using CanonicalName_dot [OF that] by (simp add: computeCacheKey_def)
  from a b c show ?thesis by auto
qed

theorem cache_key_normalized_witness:
  "differ_only_in_case ''Example.COM'' ''example.com'' \<and> \<not> IsFqdn ''Example.COM''
   \<and> length (computeCacheKey (\<lambda>bs. take 32 bs) True 1 1 ''Example.COM'') = 32
   \<and> computeCacheKey (\<lambda>bs. take 32 bs) True 1 1 ''Example.COM''
       = computeCacheKey (\<lambda>bs. take 32 bs) True 1 1 ''example.com''
   \<and> computeCacheKey (\<lambda>bs. take 32 bs) True 1 1 (''Example.COM'' @ ''.'')
       = computeCacheKey (\<lambda>bs. take 32 bs) True 1 1 ''example.com''"
proof -
  have d: "differ_only_in_case ''Example.COM'' ''example.com''"
    by (simp add: differ_only_in_case_def case_variant_def isUpper_def)
  have f: "\<not> IsFqdn ''Example.COM''"
    by (simp add: IsFqdn_def)
  from d f cache_key_normalized [of "\<lambda>bs. take 32 bs" True 1 1 "''Example.COM''" True 1 1
      "''Example.COM''" "''example.com''"]
  show ?thesis by blast
qed

section \<open>The response cache\<close>

text \<open>
  C8. For a response at a valid address: when it is truncated or its rcode is none of
  success, name-error and not-authoritative (Refused is one such rcode), the insertion
  returns no error and leaves the store, the heap and the per-query state as they were;
  when it is eligible the store is the result of \<open>Add\<close> with the new entry; and
  whenever the store has changed, the response was eligible.
\<close>

theorem insert_only_when_eligible:
  assumes "heap w a = Some m"
  shows "(Truncated m \<or> (Rcode m \<noteq> RcodeSuccess \<and> Rcode m \<noteq> RcodeNameError \<and> Rcode m \<noteq> RcodeNotAuth)
            \<longrightarrow> PluginCacheResponse_Eval ops now1 now2 w ps a = Inr (None, w, ps))
       \<and> (Rcode m = RcodeRefused \<longrightarrow> PluginCacheResponse_Eval ops now1 now2 w ps a = Inr (None, w, ps))
       \<and> (\<not> Truncated m \<and> (Rcode m = RcodeSuccess \<or> Rcode m = RcodeNameError \<or> Rcode m = RcodeNotAuth)
            \<longrightarrow> PluginCacheResponse_Eval ops now1 now2 w ps a
                  = Inr (None,
                         w\<lparr>Cache := Add ops (Cache w) (hash_key ps)
                                      \<lparr>Msg = a, expiration = insert_expiration now1 ps m\<rparr>,
                            heap := (heap w)(a \<mapsto> updateTTL now2 m (insert_expiration now1 ps m))\<rparr>,
                         ps))
       \<and> (\<forall>r w' ps'. PluginCacheResponse_Eval ops now1 now2 w ps a = Inr (r, w', ps') \<and> Cache w' \<noteq> Cache w
            \<longrightarrow> \<not> Truncated m \<and> (Rcode m = RcodeSuccess \<or> Rcode m = RcodeNameError \<or> Rcode m = RcodeNotAuth))"
proof -
  have a: "PluginCacheResponse_Eval ops now1 now2 w ps a = Inr (None, w, ps)"
    if "Truncated m \<or> (Rcode m \<noteq> RcodeSuccess \<and> Rcode m \<noteq> RcodeNameError \<and> Rcode m \<noteq> RcodeNotAuth)"
    using that assms by (auto simp: PluginCacheResponse_Eval_def)
  have b: "PluginCacheResponse_Eval ops now1 now2 w ps a = Inr (None, w, ps)"
    if "Rcode m = RcodeRefused"
    using that assms
    by (simp add: PluginCacheResponse_Eval_def RcodeRefused_def RcodeSuccess_def
        RcodeNameError_def RcodeNotAuth_def)
  have c: "PluginCacheResponse_Eval ops now1 now2 w ps a
                  = Inr (None,
                         w\<lparr>Cache := Add ops (Cache w) (hash_key ps)
                                      \<lparr>Msg = a, expiration = insert_expiration now1 ps m\<rparr>,
                            heap := (heap w)(a \<mapsto> updateTTL now2 m (insert_expiration now1 ps m))\<rparr>,
                         ps)"
    if "\<not> Truncated m \<and> (Rcode m = RcodeSuccess \<or> Rcode m = RcodeNameError \<or> Rcode m = RcodeNotAuth)"
  proof -
    from that have g: "\<not> (Rcode m \<noteq> RcodeSuccess \<and> Rcode m \<noteq> RcodeNameError \<and> Rcode m \<noteq> RcodeNotAuth)"
      and t: "\<not> Truncated m" by auto
    show ?thesis
      unfolding PluginCacheResponse_Eval_def insert_expiration_def
      using assms g t by (auto simp: Let_def)
  qed
  have d: "\<not> Truncated m \<and> (Rcode m = RcodeSuccess \<or> Rcode m = RcodeNameError \<or> Rcode m = RcodeNotAuth)"
    if "PluginCacheResponse_Eval ops now1 now2 w ps a = Inr (r, w', ps') \<and> Cache w' \<noteq> Cache w"
    for r w' ps'
  proof (rule ccontr)
    assume "\<not> ?thesis"
    then have "Truncated m \<or> (Rcode m \<noteq> RcodeSuccess \<and> Rcode m \<noteq> RcodeNameError \<and> Rcode m \<noteq> RcodeNotAuth)"
      by auto
    from a [OF this] that show False by simp
  qed
  from a b c d show ?thesis by blast
qed

theorem insert_only_when_eligible_witness:
  "heap ex_world 0 = Some (ex_msg 7 0 False [])
   \<and> PluginCacheResponse_Eval map_cache_ops 10 10 ex_world ex_pluginsState 0
       = Inr (None,
              ex_world\<lparr>Cache := (Cache ex_world)(replicate 32 7 \<mapsto> \<lparr>Msg = 0, expiration = 60000000010\<rparr>),
                       heap := (heap ex_world)(0 \<mapsto> ex_msg 7 0 False [])\<rparr>,
              ex_pluginsState)
   \<and> heap (ex_world\<lparr>heap := [0 \<mapsto> ex_msg 7 RcodeRefused False []]\<rparr>) 0 = Some (ex_msg 7 RcodeRefused False [])
   \<and> PluginCacheResponse_Eval map_cache_ops 10 10 (ex_world\<lparr>heap := [0 \<mapsto> ex_msg 7 RcodeRefused False []]\<rparr>)
        ex_pluginsState 0
       = Inr (None, ex_world\<lparr>heap := [0 \<mapsto> ex_msg 7 RcodeRefused False []]\<rparr>, ex_pluginsState)
   \<and> heap (ex_world\<lparr>heap := [0 \<mapsto> ex_msg 7 0 True []]\<rparr>) 0 = Some (ex_msg 7 0 True [])
   \<and> PluginCacheResponse_Eval map_cache_ops 10 10 (ex_world\<lparr>heap := [0 \<mapsto> ex_msg 7 0 True []]\<rparr>)
        ex_pluginsState 0
       = Inr (None, ex_world\<lparr>heap := [0 \<mapsto> ex_msg 7 0 True []]\<rparr>, ex_pluginsState)"
proof -
  have h0: "heap ex_world 0 = Some (ex_msg 7 0 False [])"
    by (simp add: ex_world_def)
  have h1: "heap (ex_world\<lparr>heap := [0 \<mapsto> ex_msg 7 RcodeRefused False []]\<rparr>) 0
              = Some (ex_msg 7 RcodeRefused False [])"
    by simp
  have h2: "heap (ex_world\<lparr>heap := [0 \<mapsto> ex_msg 7 0 True []]\<rparr>) 0 = Some (ex_msg 7 0 True [])"
    by simp
  have e: "insert_expiration 10 ex_pluginsState (ex_msg 7 0 False []) = 60000000010"
    by (simp add: insert_expiration_def ex_pluginsState_def ex_msg_def getMinTTL_def
        RcodeSuccess_def RcodeNameError_def Second_def)
  have u: "updateTTL 10 (ex_msg 7 0 False []) 60000000010 = ex_msg 7 0 False []"
    by (simp add: updateTTL_def ex_msg_def)
  have k: "hash_key ex_pluginsState = replicate 32 7"
    by (simp add: ex_pluginsState_def)
  have r0: "Rcode (ex_msg 7 0 False []) = RcodeSuccess" "\<not> Truncated (ex_msg 7 0 False [])"
    by (simp_all add: ex_msg_def RcodeSuccess_def)
  have r1: "Rcode (ex_msg 7 RcodeRefused False []) = RcodeRefused"
    by (simp add: ex_msg_def)
  have r2: "Truncated (ex_msg 7 0 True [])"
    by (simp add: ex_msg_def)
  from insert_only_when_eligible [OF h0, of map_cache_ops 10 10 ex_pluginsState] r0
  have a: "PluginCacheResponse_Eval map_cache_ops 10 10 ex_world ex_pluginsState 0
       = Inr (None,
              ex_world\<lparr>Cache := (Cache ex_world)(replicate 32 7 \<mapsto> \<lparr>Msg = 0, expiration = 60000000010\<rparr>),
                       heap := (heap ex_world)(0 \<mapsto> ex_msg 7 0 False [])\<rparr>,
              ex_pluginsState)"
    by (simp add: e u k map_cache_ops_def)
  from insert_only_when_eligible [OF h1, of map_cache_ops 10 10 ex_pluginsState] r1
  have b: "PluginCacheResponse_Eval map_cache_ops 10 10 (ex_world\<lparr>heap := [0 \<mapsto> ex_msg 7 RcodeRefused False []]\<rparr>)
        ex_pluginsState 0
       = Inr (None, ex_world\<lparr>heap := [0 \<mapsto> ex_msg 7 RcodeRefused False []]\<rparr>, ex_pluginsState)"
    by simp
  from insert_only_when_eligible [OF h2, of map_cache_ops 10 10 ex_pluginsState] r2
  have c: "PluginCacheResponse_Eval map_cache_ops 10 10 (ex_world\<lparr>heap := [0 \<mapsto> ex_msg 7 0 True []]\<rparr>)
        ex_pluginsState 0
       = Inr (None, ex_world\<lparr>heap := [0 \<mapsto> ex_msg 7 0 True []]\<rparr>, ex_pluginsState)"
    by simp
  from h0 h1 h2 a b c show ?thesis by simp
qed

text \<open>
  C9. A lookup that finds an entry whose expiration is before the current time returns
  no error, leaves the synthesized-response slot, the plugin state and the cache-hit
  flag as they were, and stores the address of the expired message under \<open>stale\<close> in
  the session data.
\<close>

theorem expired_entry_is_stale_only:
  assumes "Get ops (Cache w) (hash_key ps) = (Some entry, c)"
    and "heap w a = Some q"
    and "heap w (Msg entry) = Some m"
    and "now1 > expiration entry"
  shows "(\<exists>w'. PluginCache_Eval ops now1 now2 w ps a
                = Inr (None, w', ps\<lparr>sessionData := (sessionData ps)(''stale'' \<mapsto> Msg entry)\<rparr>))
    \<and> (\<forall>r w' ps'. PluginCache_Eval ops now1 now2 w ps a = Inr (r, w', ps') \<longrightarrow>
           synthResponse ps' = synthResponse ps \<and> state ps' = state ps \<and> CacheHit ps' = CacheHit ps
           \<and> sessionData ps' ''stale'' = Some (Msg entry))"
  using assms by (simp add: PluginCache_Eval_def Let_def)

theorem expired_entry_is_stale_only_witness:
  "Get map_cache_ops (Cache ex_world) (hash_key ex_pluginsState)
     = (Some \<lparr>Msg = 1, expiration = 100\<rparr>, Cache ex_world)
   \<and> heap ex_world 0 = Some (ex_msg 7 0 False [])
   \<and> heap ex_world (Msg \<lparr>Msg = 1, expiration = 100\<rparr>) = Some (ex_msg 1 0 False [ex_rr 300])
   \<and> (200 :: int) > expiration \<lparr>Msg = 1, expiration = 100\<rparr>
   \<and> (\<exists>w'. PluginCache_Eval map_cache_ops 200 200 ex_world ex_pluginsState 0
              = Inr (None, w', ex_pluginsState\<lparr>sessionData := [''stale'' \<mapsto> 1]\<rparr>))
   \<and> synthResponse (ex_pluginsState\<lparr>sessionData := [''stale'' \<mapsto> 1]\<rparr>) = None
   \<and> state (ex_pluginsState\<lparr>sessionData := [''stale'' \<mapsto> 1]\<rparr>) = PluginsStateOther 0
   \<and> \<not> CacheHit (ex_pluginsState\<lparr>sessionData := [''stale'' \<mapsto> 1]\<rparr>)"
proof -
  have g: "Get map_cache_ops (Cache ex_world) (hash_key ex_pluginsState)
     = (Some \<lparr>Msg = 1, expiration = 100\<rparr>, Cache ex_world)"
    by (simp add: map_cache_ops_def ex_world_def ex_pluginsState_def)
  have h0: "heap ex_world 0 = Some (ex_msg 7 0 False [])"
    by (simp add: ex_world_def)
  have h1: "heap ex_world (Msg \<lparr>Msg = 1, expiration = 100\<rparr>) = Some (ex_msg 1 0 False [ex_rr 300])"
    by (simp add: ex_world_def)
  have t: "(200 :: int) > expiration \<lparr>Msg = 1, expiration = 100\<rparr>"
    by simp
  have s: "sessionData ex_pluginsState = Map.empty"
    "synthResponse ex_pluginsState = None" "state ex_pluginsState = PluginsStateOther 0"
    "\<not> CacheHit ex_pluginsState"
    by (simp_all add: ex_pluginsState_def)
  from expired_entry_is_stale_only [OF g h0 h1 t, of 200] g h0 h1 t s
  show ?thesis by simp
qed

lemma set_Ttl_twice: "set_Ttl u (set_Ttl t rr) = set_Ttl u rr"
  by (cases rr) simp_all

lemma same_records_refl: "same_records_but_ttl rs rs"
  by (simp add: same_records_but_ttl_def)

lemma same_records_set_Ttl: "same_records_but_ttl rs (map (set_Ttl t) rs)"
  by (simp add: same_records_but_ttl_def set_Ttl_twice)

lemma same_records_set_Ttl_if:
  "same_records_but_ttl rs (map (\<lambda>rr. if P rr then set_Ttl t rr else rr) rs)"
  by (simp add: same_records_but_ttl_def set_Ttl_twice)

text \<open>
  C3, as amended. A lookup that finds an entry does not touch the store beyond what
  \<open>Get\<close> does, and writes one object of the heap: the stored message. There it sets the
  id to the id of the query and the response and compression flags to true, on every
  hit, also on an expired one. On a fresh hit it also sets the TTL of every answer and
  authority record and of every additional record that is not OPT to the remaining
  seconds; on an expired hit the records are untouched. The truncation flag, the rcode,
  the question section and the records apart from their TTLs stay as they were.
\<close>

theorem lookup_writes_stored_message:
  assumes "Get ops (Cache w) (hash_key ps) = (Some entry, c)"
    and "heap w a = Some q"
    and "heap w (Msg entry) = Some m"
  shows "\<exists>m' ps'. PluginCache_Eval ops now1 now2 w ps a
                     = Inr (None, \<lparr>Cache = c, heap = (heap w)(Msg entry \<mapsto> m')\<rparr>, ps')
           \<and> Id' m' = Id' q \<and> Response m' \<and> Compress m'
           \<and> Truncated m' = Truncated m \<and> Rcode m' = Rcode m \<and> Question m' = Question m
           \<and> same_records_but_ttl (Answer m) (Answer m')
           \<and> same_records_but_ttl (Ns m) (Ns m')
           \<and> same_records_but_ttl (Extra m) (Extra m')
           \<and> (now1 > expiration entry \<longrightarrow>
                 Answer m' = Answer m \<and> Ns m' = Ns m \<and> Extra m' = Extra m)
           \<and> (\<not> now1 > expiration entry \<longrightarrow>
                 Answer m' = map (set_Ttl (remaining_ttl now2 (expiration entry))) (Answer m)
                 \<and> Ns m' = map (set_Ttl (remaining_ttl now2 (expiration entry))) (Ns m)
                 \<and> Extra m' = map (\<lambda>rr. if Rrtype (Header rr) \<noteq> TypeOPT
                                         then set_Ttl (remaining_ttl now2 (expiration entry)) rr
                                         else rr) (Extra m))"
proof (cases "now1 > expiration entry")
  case True
  let ?m = "m\<lparr>Id' := Id' q, Response := True, Compress := True\<rparr>"
  from True assms
  have "PluginCache_Eval ops now1 now2 w ps a
          = Inr (None, \<lparr>Cache = c, heap = (heap w)(Msg entry \<mapsto> ?m)\<rparr>,
                 ps\<lparr>sessionData := (sessionData ps)(''stale'' \<mapsto> Msg entry)\<rparr>)"
    by (cases w) (simp add: PluginCache_Eval_def Let_def)
  with True show ?thesis
    by (intro exI [of _ ?m] exI [of _ "ps\<lparr>sessionData := (sessionData ps)(''stale'' \<mapsto> Msg entry)\<rparr>"])
      (simp add: same_records_refl)
next
  case False
  let ?m = "updateTTL now2 (m\<lparr>Id' := Id' q, Response := True, Compress := True\<rparr>) (expiration entry)"
  let ?ps = "ps\<lparr>synthResponse := Some (Msg entry), state := PluginsStateSynth, CacheHit := True\<rparr>"
  from False assms
  have "PluginCache_Eval ops now1 now2 w ps a
          = Inr (None, \<lparr>Cache = c, heap = (heap w)(Msg entry \<mapsto> ?m)\<rparr>, ?ps)"
    by (cases w) (simp add: PluginCache_Eval_def Let_def)
  with False show ?thesis
    by (intro exI [of _ ?m] exI [of _ ?ps])
      (simp add: updateTTL_def Let_def same_records_set_Ttl same_records_set_Ttl_if)
qed

theorem lookup_writes_stored_message_witness:
  "Get map_cache_ops (Cache ex_world) (hash_key ex_pluginsState)
     = (Some \<lparr>Msg = 1, expiration = 100\<rparr>, Cache ex_world)
   \<and> heap ex_world 0 = Some (ex_msg 7 0 False [])
   \<and> heap ex_world (Msg \<lparr>Msg = 1, expiration = 100\<rparr>) = Some (ex_msg 1 0 False [ex_rr 300])
   \<and> (\<exists>m' ps'. PluginCache_Eval map_cache_ops 50 50 ex_world ex_pluginsState 0
                  = Inr (None, \<lparr>Cache = Cache ex_world, heap = (heap ex_world)(1 \<mapsto> m')\<rparr>, ps')
        \<and> Id' m' = 7 \<and> Response m' \<and> Compress m' \<and> Answer m' = [ex_rr 0])"
proof -
  have g: "Get map_cache_ops (Cache ex_world) (hash_key ex_pluginsState)
     = (Some \<lparr>Msg = 1, expiration = 100\<rparr>, Cache ex_world)"
    by (simp add: map_cache_ops_def ex_world_def ex_pluginsState_def)
  have h0: "heap ex_world 0 = Some (ex_msg 7 0 False [])"
    by (simp add: ex_world_def)
  have h1: "heap ex_world (Msg \<lparr>Msg = 1, expiration = 100\<rparr>) = Some (ex_msg 1 0 False [ex_rr 300])"
    by (simp add: ex_world_def)
  have r: "remaining_ttl 50 100 = 0"
    by (simp add: remaining_ttl_def Until_def Second_def word_sless_alt)
  have i: "Id' (ex_msg 7 0 False []) = 7" "Answer (ex_msg 1 0 False [ex_rr 300]) = [ex_rr 300]"
    "set_Ttl 0 (ex_rr 300) = ex_rr 0"
    by (simp_all add: ex_msg_def ex_rr_def)
  from lookup_writes_stored_message [OF g h0 h1, of 50 50]
  have "\<exists>m' ps'. PluginCache_Eval map_cache_ops 50 50 ex_world ex_pluginsState 0
                  = Inr (None, \<lparr>Cache = Cache ex_world, heap = (heap ex_world)(1 \<mapsto> m')\<rparr>, ps')
        \<and> Id' m' = 7 \<and> Response m' \<and> Compress m' \<and> Answer m' = [ex_rr 0]"
    by (simp add: r i) blast
  with g h0 h1 show ?thesis by blast
qed

text \<open>
  C3, as stated, fails: the entry under the key points to the message at address 1 with
  id 1 and both flags false; after a lookup at time 200, past the expiration 100, for a
  query with id 7, the message at address 1 has id 7 and both flags true.
\<close>

theorem lookup_frame_counterexample:
  "Get map_cache_ops (Cache ex_world) (hash_key ex_pluginsState)
     = (Some \<lparr>Msg = 1, expiration = 100\<rparr>, Cache ex_world)
   \<and> heap ex_world 1 = Some (ex_msg 1 0 False [ex_rr 300])
   \<and> PluginCache_Eval map_cache_ops 200 200 ex_world ex_pluginsState 0
       = Inr (None,
              ex_world\<lparr>heap := (heap ex_world)
                         (1 \<mapsto> (ex_msg 1 0 False [ex_rr 300])\<lparr>Id' := 7, Response := True, Compress := True\<rparr>)\<rparr>,
              ex_pluginsState\<lparr>sessionData := [''stale'' \<mapsto> 1]\<rparr>)
   \<and> Id' ((ex_msg 1 0 False [ex_rr 300])\<lparr>Id' := 7, Response := True, Compress := True\<rparr>)
       \<noteq> Id' (ex_msg 1 0 False [ex_rr 300])
   \<and> Response ((ex_msg 1 0 False [ex_rr 300])\<lparr>Id' := 7, Response := True, Compress := True\<rparr>)
       \<noteq> Response (ex_msg 1 0 False [ex_rr 300])
   \<and> Compress ((ex_msg 1 0 False [ex_rr 300])\<lparr>Id' := 7, Response := True, Compress := True\<rparr>)
       \<noteq> Compress (ex_msg 1 0 False [ex_rr 300])"
  by (simp add: PluginCache_Eval_def map_cache_ops_def ex_world_def ex_pluginsState_def ex_msg_def)

section \<open>Certificate candidates\<close>

lemma copy_same_length: "length dst = length src \<Longrightarrow> copy dst src = src"
  by (simp add: copy_def)

lemma cert_candidate_rejects:
  assumes "malformed_or_unsigned E pk (packTxtString (concat t))"
  shows "cert_candidate E proxy pk pn st (TXT h t) = st"
  using assms
  by (cases st) (auto simp: cert_candidate_def malformed_or_unsigned_def Let_def)

lemma cert_candidate_valid:
  assumes v: "otherwise_valid E proxy pk binCert"
    and b: "binCert = packTxtString (concat t)"
    and z: "CertInfo_sized certInfo"
  shows "cert_candidate E proxy pk pn (certInfo, highestSerial) (TXT h t) =
     (if cert_serial binCert < highestSerial
         \<or> (cert_serial binCert = highestSerial
              \<and> cert_construction binCert < CryptoConstruction certInfo)
      then (certInfo\<lparr>ForwardSecurity := cert_forward_secure binCert\<rparr>, highestSerial)
      else (\<lparr>ServerPk = slice binCert 72 104,
             SharedKey = ComputeSharedKey E (cert_construction binCert) (proxySecretKey proxy)
                           (slice binCert 72 104) pn,
             MagicQuery = slice binCert 104 112,
             CryptoConstruction = cert_construction binCert,
             ForwardSecurity = cert_forward_secure binCert\<rparr>, cert_serial binCert))"
proof -
  from v have len: "\<not> length binCert < 124" and mg: "\<not> take 4 binCert \<noteq> take 4 (CertMagic E)"
    and ver: "\<not> (Uint16 (slice binCert 4 6) \<noteq> 1 \<and> Uint16 (slice binCert 4 6) \<noteq> 2)"
    and sg: "\<not> \<not> Verify E pk (drop 72 binCert) (slice binCert 8 72)"
    and ts: "\<not> Uint32 (slice binCert 116 120) \<ge> Uint32 (slice binCert 120 124)"
    and tm: "\<not> (\<not> certIgnoreTimestamp proxy
               \<and> (unix_now E > Uint32 (slice binCert 120 124) \<or> unix_now E < Uint32 (slice binCert 116 120)))"
    by (auto simp: otherwise_valid_def cert_tsBegin_def cert_tsEnd_def)
  have cc: "\<not> (cert_construction binCert \<noteq> XChacha20Poly1305 \<and> cert_construction binCert \<noteq> XSalsa20Poly1305)"
    by (simp add: cert_construction_def)
  from len have l1: "length (slice binCert 72 104) = 32" and l2: "length (slice binCert 104 112) = 8"
    by (simp_all add: slice_def)
  from z l1 l2 have cp: "copy (replicate 32 0) (slice binCert 72 104) = slice binCert 72 104"
    "copy (ServerPk certInfo) (slice binCert 72 104) = slice binCert 72 104"
    "copy (MagicQuery certInfo) (slice binCert 104 112) = slice binCert 104 112"
    by (simp_all add: copy_same_length CertInfo_sized_def ClientMagicLen_def)
  have fs: "(if Uint32 (slice binCert 120 124) - Uint32 (slice binCert 116 120) > 86400 * 7 then False else True)
             = cert_forward_secure binCert"
    by (simp add: cert_forward_secure_def cert_tsBegin_def cert_tsEnd_def)
  have cdef: "(if Uint16 (slice binCert 4 6) = 1 then XSalsa20Poly1305 else XChacha20Poly1305)
               = cert_construction binCert"
    by (simp add: cert_construction_def)
  have sdef: "Uint32 (slice binCert 112 116) = cert_serial binCert"
    by (simp add: cert_serial_def)
  show ?thesis
    unfolding cert_candidate_def b [symmetric] Let_def prod.case RR.case
      if_not_P [OF len] if_not_P [OF mg] if_not_P [OF ver] if_not_P [OF sg] if_not_P [OF ts]
      if_not_P [OF tm] fs cdef sdef cp
    using cc cp by (cases certInfo) auto
qed

lemma packTxt_loop_plain:
  "92 \<notin> set bs \<Longrightarrow> packTxt_loop bs i msg = msg @ drop i bs"
proof (induction bs i msg rule: packTxt_loop.induct)
  case (1 bs i msg)
  show ?case
  proof (cases "i < length bs")
    case True
    with "1.prems" have n: "bs ! i \<noteq> 92" by (metis nth_mem)
    from True n "1.prems" have "packTxt_loop bs (i + 1) (msg @ [bs ! i]) = (msg @ [bs ! i]) @ drop (i + 1) bs"
      by (intro "1.IH"(6)) simp_all
    moreover from True n have "packTxt_loop bs i msg = packTxt_loop bs (i + 1) (msg @ [bs ! i])"
      by (subst packTxt_loop.simps) simp
    ultimately show ?thesis using True by (simp add: Cons_nth_drop_Suc)
  next
    case False
    then show ?thesis by (subst packTxt_loop.simps) simp
  qed
qed

lemma packTxtString_plain: "92 \<notin> set bs \<Longrightarrow> packTxtString bs = bs"
  by (simp add: packTxtString_def packTxt_loop_plain)

lemma length_ex_cert: "length (ex_cert v k s b e) = 124"
  by (simp add: ex_cert_def PutUint16_def PutUint32_def)

lemma ex_cert_parts:
  "take 4 (ex_cert v k s b e) = [68, 78, 83, 67]"
  "slice (ex_cert v k s b e) 4 6 = PutUint16 v"
  "slice (ex_cert v k s b e) 8 72 = replicate 64 0"
  "slice (ex_cert v k s b e) 72 104 = replicate 32 k"
  "slice (ex_cert v k s b e) 104 112 = replicate 8 0"
  "slice (ex_cert v k s b e) 112 116 = PutUint32 s"
  "slice (ex_cert v k s b e) 116 120 = PutUint32 b"
  "slice (ex_cert v k s b e) 120 124 = PutUint32 e"
  by (simp_all add: ex_cert_def slice_def PutUint16_def PutUint32_def)

lemma ex_numbers:
  "Uint16 (PutUint16 1) = 1"
  "Uint32 (PutUint32 5) = 5" "Uint32 (PutUint32 3) = 3"
  "Uint32 (PutUint32 900) = 900" "Uint32 (PutUint32 87300) = 87300"
  "Uint32 (PutUint32 2592900) = 2592900"
  by (simp_all add: Uint16_def Uint32_def PutUint16_def PutUint32_def)

lemma ex_no_backslash:
  "92 \<notin> set ex_cert_first" "92 \<notin> set ex_cert_rival" "92 \<notin> set ex_cert_old"
  by (simp_all add: ex_cert_first_def ex_cert_rival_def ex_cert_old_def ex_cert_def
      PutUint16_def PutUint32_def)

lemma ex_packed:
  "packTxtString ex_cert_first = ex_cert_first"
  "packTxtString ex_cert_rival = ex_cert_rival"
  "packTxtString ex_cert_old = ex_cert_old"
  by (simp_all add: packTxtString_plain ex_no_backslash)

lemma ex_fields:
  "cert_serial ex_cert_first = 5" "cert_serial ex_cert_rival = 5" "cert_serial ex_cert_old = 3"
  "cert_construction ex_cert_first = XSalsa20Poly1305"
  "cert_construction ex_cert_rival = XSalsa20Poly1305"
  "cert_construction ex_cert_old = XSalsa20Poly1305"
  "cert_forward_secure ex_cert_first" "cert_forward_secure ex_cert_rival"
  "\<not> cert_forward_secure ex_cert_old"
  "cert_tsEnd ex_cert_first - cert_tsBegin ex_cert_first = 86400"
  "slice ex_cert_first 72 104 = replicate 32 1" "slice ex_cert_rival 72 104 = replicate 32 2"
  "slice ex_cert_old 72 104 = replicate 32 2"
  "slice ex_cert_first 104 112 = replicate 8 0" "slice ex_cert_rival 104 112 = replicate 8 0"
  "slice ex_cert_old 104 112 = replicate 8 0"
  by (simp_all add: ex_cert_first_def ex_cert_rival_def ex_cert_old_def cert_serial_def
      cert_construction_def cert_forward_secure_def cert_tsBegin_def cert_tsEnd_def
      ex_cert_parts ex_numbers)

lemma ex_valid:
  "otherwise_valid (ex_env net) ex_proxy pk ex_cert_first"
  "otherwise_valid (ex_env net) ex_proxy pk ex_cert_rival"
  "otherwise_valid (ex_env net) ex_proxy pk ex_cert_old"
  by (simp_all add: otherwise_valid_def ex_cert_first_def ex_cert_rival_def ex_cert_old_def
      length_ex_cert ex_cert_parts ex_numbers ex_env_def ex_proxy_def cert_tsBegin_def
      cert_tsEnd_def)

lemma ex_best_sized: "CertInfo_sized ex_best"
  "CertInfo_sized (ex_best\<lparr>CryptoConstruction := XChacha20Poly1305\<rparr>)"
  "CertInfo_sized (CertInfo_zero\<lparr>CryptoConstruction := UndefinedConstruction\<rparr>)"
  by (simp_all add: CertInfo_sized_def ex_best_def CertInfo_zero_def ClientMagicLen_def)

lemma ex_step_first:
  "cert_candidate (ex_env net) ex_proxy pk pn
     (CertInfo_zero\<lparr>CryptoConstruction := UndefinedConstruction\<rparr>, 0) (ex_txt ex_cert_first)
   = (ex_best, 5)"
proof -
  have p: "ex_cert_first = packTxtString (concat [ex_cert_first])"
    by (simp add: ex_packed)
  show ?thesis
    unfolding ex_txt_def cert_candidate_valid [OF ex_valid(1) p ex_best_sized(3)]
    by (simp add: ex_fields ex_best_def ex_env_def)
qed

text \<open>
  C5. A candidate that is shorter than 124 bytes after decoding, or whose first four
  bytes are not the certificate magic, or whose signature does not verify, leaves
  \<open>certInfo\<close> and \<open>highestSerial\<close> exactly as they were, whatever its serial; the loop
  over the answer section and the outcome of the resolution are what they are without
  the candidate.
\<close>

theorem malformed_candidate_ignored:
  assumes "malformed_or_unsigned E pk (packTxtString (concat t))"
  shows "cert_candidate E proxy pk pn st (TXT h t) = st
    \<and> foldl (cert_candidate E proxy pk pn) st (xs @ TXT h t # ys)
        = foldl (cert_candidate E proxy pk pn) st (xs @ ys)
    \<and> select_certificate E proxy pk pn ws r (msg\<lparr>Answer := xs @ TXT h t # ys\<rparr>)
        = select_certificate E proxy pk pn ws r (msg\<lparr>Answer := xs @ ys\<rparr>)"
  by (simp add: cert_candidate_rejects [OF assms] select_certificate_def)

theorem malformed_candidate_ignored_witness:
  "malformed_or_unsigned (ex_env ex_net_down) (replicate 32 3) (packTxtString (concat [[1, 2, 3]]))
   \<and> cert_candidate (ex_env ex_net_down) ex_proxy (replicate 32 3) ''2.dnscrypt-cert.example.''
        (ex_best, 0) (ex_txt [1, 2, 3]) = (ex_best, 0)
   \<and> malformed_or_unsigned (ex_env ex_net_down) (replicate 32 3)
        (packTxtString (concat [(69 # drop 1 ex_cert_rival)]))
   \<and> cert_candidate (ex_env ex_net_down) ex_proxy (replicate 32 3) ''2.dnscrypt-cert.example.''
        (ex_best, 0) (ex_txt ((69 # drop 1 ex_cert_rival))) = (ex_best, 0)
   \<and> malformed_or_unsigned (ex_env ex_net_down) (replicate 32 3)
        (packTxtString (concat [(take 8 ex_cert_rival @ [1] @ drop 9 ex_cert_rival)]))
   \<and> cert_candidate (ex_env ex_net_down) ex_proxy (replicate 32 3) ''2.dnscrypt-cert.example.''
        (ex_best, 0) (ex_txt ((take 8 ex_cert_rival @ [1] @ drop 9 ex_cert_rival))) = (ex_best, 0)"
proof -
  have p1: "packTxtString (concat [[1, 2, 3]]) = [1, 2, 3]"
    by (simp add: packTxtString_plain)
  have p2: "packTxtString (concat [(69 # drop 1 ex_cert_rival)]) = (69 # drop 1 ex_cert_rival)"
    by (simp add: packTxtString_plain ex_cert_rival_def ex_cert_def PutUint16_def PutUint32_def)
  have p3: "packTxtString (concat [(take 8 ex_cert_rival @ [1] @ drop 9 ex_cert_rival)]) = (take 8 ex_cert_rival @ [1] @ drop 9 ex_cert_rival)"
    by (simp add: packTxtString_plain ex_cert_rival_def ex_cert_def PutUint16_def PutUint32_def)
  have m1: "malformed_or_unsigned (ex_env ex_net_down) (replicate 32 3) (packTxtString (concat [[1, 2, 3]]))"
    unfolding p1 by (simp add: malformed_or_unsigned_def)
  have m2: "malformed_or_unsigned (ex_env ex_net_down) (replicate 32 3)
        (packTxtString (concat [(69 # drop 1 ex_cert_rival)]))"
    unfolding p2
    by (simp add: malformed_or_unsigned_def ex_cert_rival_def ex_cert_def ex_env_def)
  have m3: "malformed_or_unsigned (ex_env ex_net_down) (replicate 32 3)
        (packTxtString (concat [(take 8 ex_cert_rival @ [1] @ drop 9 ex_cert_rival)]))"
  proof -
    have r: "(1::byte) # replicate 63 0 \<noteq> replicate 64 0"
      using replicate_Suc [of 63 "0::byte"] by simp
    show ?thesis
      unfolding p3
      by (simp add: malformed_or_unsigned_def ex_cert_rival_def ex_cert_def ex_env_def slice_def
          PutUint16_def r)
  qed
  from malformed_candidate_ignored [OF m1, of ex_proxy "''2.dnscrypt-cert.example.''" "(ex_best, 0)"
      "\<lparr>Rrtype = TypeTXT, Ttl = 0\<rparr>"]
    malformed_candidate_ignored [OF m2, of ex_proxy "''2.dnscrypt-cert.example.''" "(ex_best, 0)"
      "\<lparr>Rrtype = TypeTXT, Ttl = 0\<rparr>"]
    malformed_candidate_ignored [OF m3, of ex_proxy "''2.dnscrypt-cert.example.''" "(ex_best, 0)"
      "\<lparr>Rrtype = TypeTXT, Ttl = 0\<rparr>"]
    m1 m2 m3
  show ?thesis by (simp add: ex_txt_def)
qed

text \<open>
  C1, as amended. A candidate that passes every earlier check and whose serial equals
  the highest serial so far is skipped when its construction is strictly lower than
  that of the best so far: the server key, the shared key, the magic query, the
  construction and the highest serial stay as they were. With an equal or a higher
  construction it replaces the best so far: these fields are those of the candidate.
\<close>

theorem equal_serial_arbitration:
  assumes "otherwise_valid E proxy pk binCert"
    and "binCert = packTxtString (concat t)"
    and "CertInfo_sized certInfo"
    and "cert_serial binCert = highestSerial"
  shows "(cert_construction binCert < CryptoConstruction certInfo \<longrightarrow>
            arbitration_fields (cert_candidate E proxy pk pn (certInfo, highestSerial) (TXT h t))
              = arbitration_fields (certInfo, highestSerial))
       \<and> (CryptoConstruction certInfo \<le> cert_construction binCert \<longrightarrow>
            arbitration_fields (cert_candidate E proxy pk pn (certInfo, highestSerial) (TXT h t))
              = (slice binCert 72 104,
                 ComputeSharedKey E (cert_construction binCert) (proxySecretKey proxy)
                   (slice binCert 72 104) pn,
                 slice binCert 104 112,
                 cert_construction binCert,
                 highestSerial))"
  using assms(4)
  by (auto simp: cert_candidate_valid [OF assms(1-3)] arbitration_fields_def)

theorem equal_serial_arbitration_witness:
  "otherwise_valid (ex_env ex_net_down) ex_proxy (replicate 32 3) ex_cert_rival
   \<and> ex_cert_rival = packTxtString (concat [ex_cert_rival])
   \<and> CertInfo_sized ex_best \<and> CertInfo_sized (ex_best\<lparr>CryptoConstruction := XChacha20Poly1305\<rparr>)
   \<and> cert_serial ex_cert_rival = 5
   \<and> cert_construction ex_cert_rival < CryptoConstruction (ex_best\<lparr>CryptoConstruction := XChacha20Poly1305\<rparr>)
   \<and> arbitration_fields
        (cert_candidate (ex_env ex_net_down) ex_proxy (replicate 32 3) ''2.dnscrypt-cert.example.''
           (ex_best\<lparr>CryptoConstruction := XChacha20Poly1305\<rparr>, 5) (ex_txt ex_cert_rival))
       = (replicate 32 1, replicate 32 1, replicate 8 0, XChacha20Poly1305, 5)
   \<and> CryptoConstruction ex_best \<le> cert_construction ex_cert_rival
   \<and> arbitration_fields
        (cert_candidate (ex_env ex_net_down) ex_proxy (replicate 32 3) ''2.dnscrypt-cert.example.''
           (ex_best, 5) (ex_txt ex_cert_rival))
       = (replicate 32 2, replicate 32 2, replicate 8 0, XSalsa20Poly1305, 5)"
proof -
  have v: "otherwise_valid (ex_env ex_net_down) ex_proxy (replicate 32 3) ex_cert_rival"
    by (rule ex_valid)
  have p: "ex_cert_rival = packTxtString (concat [ex_cert_rival])"
    by (simp add: ex_packed)
  have s: "cert_serial ex_cert_rival = 5"
    by (simp add: ex_fields)
  have lt: "cert_construction ex_cert_rival < CryptoConstruction (ex_best\<lparr>CryptoConstruction := XChacha20Poly1305\<rparr>)"
    by (simp add: ex_fields XSalsa20Poly1305_def XChacha20Poly1305_def)
  have le: "CryptoConstruction ex_best \<le> cert_construction ex_cert_rival"
    by (simp add: ex_fields ex_best_def)
  from equal_serial_arbitration [OF v p ex_best_sized(2) s, of "''2.dnscrypt-cert.example.''" "\<lparr>Rrtype = TypeTXT, Ttl = 0\<rparr>"] lt
  have a: "arbitration_fields
        (cert_candidate (ex_env ex_net_down) ex_proxy (replicate 32 3) ''2.dnscrypt-cert.example.''
           (ex_best\<lparr>CryptoConstruction := XChacha20Poly1305\<rparr>, 5) (ex_txt ex_cert_rival))
       = (replicate 32 1, replicate 32 1, replicate 8 0, XChacha20Poly1305, 5)"
    by (simp add: ex_txt_def arbitration_fields_def ex_best_def)
  from equal_serial_arbitration [OF v p ex_best_sized(1) s, of "''2.dnscrypt-cert.example.''" "\<lparr>Rrtype = TypeTXT, Ttl = 0\<rparr>"] le
  have b: "arbitration_fields
        (cert_candidate (ex_env ex_net_down) ex_proxy (replicate 32 3) ''2.dnscrypt-cert.example.''
           (ex_best, 5) (ex_txt ex_cert_rival))
       = (replicate 32 2, replicate 32 2, replicate 8 0, XSalsa20Poly1305, 5)"
    by (simp add: ex_txt_def ex_fields ex_env_def)
  from v p ex_best_sized(1,2) s lt le a b show ?thesis by blast
qed

text \<open>
  C1, as stated, fails: a first certificate of serial 5 and XSalsa20Poly1305 is accepted
  from the initial state; a second valid candidate of serial 5 and the same construction
  with another server key is then accepted too, and the server key and the shared key
  of the best so far change.
\<close>

theorem equal_construction_replaces_counterexample:
  "cert_candidate (ex_env ex_net_down) ex_proxy (replicate 32 3) ''2.dnscrypt-cert.example.''
     (CertInfo_zero\<lparr>CryptoConstruction := UndefinedConstruction\<rparr>, 0) (ex_txt ex_cert_first)
       = (ex_best, 5)
   \<and> otherwise_valid (ex_env ex_net_down) ex_proxy (replicate 32 3) (packTxtString (concat [ex_cert_rival]))
   \<and> cert_serial (packTxtString (concat [ex_cert_rival])) = 5
   \<and> cert_construction (packTxtString (concat [ex_cert_rival])) = CryptoConstruction ex_best
   \<and> cert_candidate (ex_env ex_net_down) ex_proxy (replicate 32 3) ''2.dnscrypt-cert.example.''
        (ex_best, 5) (ex_txt ex_cert_rival)
       = (ex_best\<lparr>ServerPk := replicate 32 2, SharedKey := replicate 32 2\<rparr>, 5)
   \<and> ServerPk (ex_best\<lparr>ServerPk := replicate 32 2, SharedKey := replicate 32 2\<rparr>) \<noteq> ServerPk ex_best
   \<and> SharedKey (ex_best\<lparr>ServerPk := replicate 32 2, SharedKey := replicate 32 2\<rparr>) \<noteq> SharedKey ex_best"
proof -
  have v: "otherwise_valid (ex_env ex_net_down) ex_proxy (replicate 32 3) ex_cert_rival"
    by (rule ex_valid)
  have p: "ex_cert_rival = packTxtString (concat [ex_cert_rival])"
    by (simp add: ex_packed)
  have c: "cert_construction ex_cert_rival = CryptoConstruction ex_best"
    by (simp add: ex_fields ex_best_def)
  have s: "cert_candidate (ex_env ex_net_down) ex_proxy (replicate 32 3) ''2.dnscrypt-cert.example.''
        (ex_best, 5) (ex_txt ex_cert_rival)
       = (ex_best\<lparr>ServerPk := replicate 32 2, SharedKey := replicate 32 2\<rparr>, 5)"
    unfolding ex_txt_def cert_candidate_valid [OF v p ex_best_sized(1)]
    by (simp add: ex_fields ex_best_def ex_env_def)
  have d: "ServerPk (ex_best\<lparr>ServerPk := replicate 32 2, SharedKey := replicate 32 2\<rparr>) \<noteq> ServerPk ex_best"
    "SharedKey (ex_best\<lparr>ServerPk := replicate 32 2, SharedKey := replicate 32 2\<rparr>) \<noteq> SharedKey ex_best"
    by (simp_all add: ex_best_def)
  from v c s d show ?thesis by (simp add: ex_packed ex_fields ex_step_first)
qed

section \<open>Certificate resolution\<close>

lemma ex_step_old:
  "cert_candidate (ex_env net) ex_proxy pk pn (ex_best, 5) (ex_txt ex_cert_old)
   = (ex_best\<lparr>ForwardSecurity := False\<rparr>, 5)"
proof -
  have p: "ex_cert_old = packTxtString (concat [ex_cert_old])"
    by (simp add: ex_packed)
  show ?thesis
    unfolding ex_txt_def cert_candidate_valid [OF ex_valid(3) p ex_best_sized(1)]
    by (simp add: ex_fields)
qed

lemma ex_rtt: "sint (5000000 :: Duration) sdiv 1000000 = 5"
  by (simp add: signed_divide_int_def)


text \<open>
  C2. The claim, that the returned \<open>ForwardSecurity\<close> is that of the winning
  certificate, does not hold of the code, which sets the flag before the checks that
  can still skip a candidate. Here the answer holds a certificate of serial 5 with a
  window of one day and then one of serial 3 with a window of thirty days, both signed
  and valid now. The first wins, the second is skipped as superseded, and the resolution
  returns the keys of the first with \<open>ForwardSecurity\<close> false.
\<close>

theorem forward_security_from_skipped_certificate:
  "FetchCurrentDNSCryptCert (ex_env (ex_net_up [ex_cert_first, ex_cert_old])) ex_proxy ''udp''
     (replicate 32 3) ''192.0.2.1:443'' ''2.dnscrypt-cert.example'' []
     = Some ([], \<lparr>ServerPk = replicate 32 1, SharedKey = replicate 32 1, MagicQuery = replicate 8 0,
                  CryptoConstruction = XSalsa20Poly1305, ForwardSecurity = False\<rparr>, 5, None)
   \<and> slice ex_cert_first 72 104 = replicate 32 1
   \<and> cert_tsEnd ex_cert_first - cert_tsBegin ex_cert_first = 86400
   \<and> cert_forward_secure ex_cert_first
   \<and> slice ex_cert_old 72 104 = replicate 32 2
   \<and> \<not> cert_forward_secure ex_cert_old"
proof -
  have x: "dnsExchange (ex_env (ex_net_up [ex_cert_first, ex_cert_old])) ''udp''
             ''2.dnscrypt-cert.example.'' ''192.0.2.1:443'' 0 None
           = ((Some (ex_response [ex_cert_first, ex_cert_old]), 5000000, None, True), 1)"
    by (simp add: dnsExchange_def ex_env_def ex_net_up_def)
  have sel: "select_certificate (ex_env (ex_net_up [ex_cert_first, ex_cert_old])) ex_proxy
               (replicate 32 3) ''2.dnscrypt-cert.example.'' [] 5000000
               (ex_response [ex_cert_first, ex_cert_old])
             = ([], ex_best\<lparr>ForwardSecurity := False\<rparr>, 5, None)"
    by (simp add: select_certificate_def ex_response_def ex_step_first ex_step_old ex_rtt)
       (simp add: ex_best_def XSalsa20Poly1305_def UndefinedConstruction_def)
  have f: "FetchCurrentDNSCryptCert (ex_env (ex_net_up [ex_cert_first, ex_cert_old])) ex_proxy ''udp''
     (replicate 32 3) ''192.0.2.1:443'' ''2.dnscrypt-cert.example'' []
     = Some ([], ex_best\<lparr>ForwardSecurity := False\<rparr>, 5, None)"
    by (simp add: FetchCurrentDNSCryptCert_def PublicKeySize_def HasSuffix_def x sel
        exchange_vars_init_def)
  from f show ?thesis by (simp add: ex_fields ex_best_def)
qed







end
